theory Spec2Isabelle
  imports Main "HOL-Library.Char_ord" "HOL-Library.List_Lexorder" "HOL-Library.AList"
begin

section \<open>Go strings\<close>

text \<open>
  A Go string is a sequence of bytes, and so is an Isabelle \<open>string\<close> (a list of 8-bit
  characters). The conversions \<^verbatim>\<open>[]byte(s)\<close> and \<^verbatim>\<open>string(b)\<close> keep every byte, so
  byte slices are modelled as \<open>string\<close> too.
\<close>

definition sep :: char where
  "sep = CHR ''|''"

text \<open>
  \<^verbatim>\<open>strings.Index(s, "|")\<close> together with the two slices that \<^verbatim>\<open>genSplit\<close> takes
  around the match: the part before the first separator and the part after it.
\<close>

fun cut :: "string \<Rightarrow> (string \<times> string) option" where
  "cut [] = None"
| "cut (c # cs) =
     (if c = sep then Some ([], cs)
      else (case cut cs of None \<Rightarrow> None | Some (b, a) \<Rightarrow> Some (c # b, a)))"

text \<open>
  \<^verbatim>\<open>strings.SplitN(s, "|", n)\<close> for \<open>n \<ge> 0\<close>: no part for \<open>n = 0\<close>; otherwise at
  most \<open>n\<close> parts, the last one being the unsplit remainder.
\<close>

fun SplitN :: "string \<Rightarrow> nat \<Rightarrow> string list" where
  "SplitN s 0 = []"
| "SplitN s (Suc 0) = [s]"
| "SplitN s (Suc (Suc n)) =
     (case cut s of None \<Rightarrow> [s] | Some (b, a) \<Rightarrow> b # SplitN a (Suc n))"

text \<open>\<^verbatim>\<open>strings.Contains(s, "|")\<close>.\<close>

definition Contains :: "string \<Rightarrow> bool" where
  "Contains s = (sep \<in> set s)"

section \<open>Errors\<close>

text \<open>
  The code builds its errors with \<^verbatim>\<open>fmt.Errorf\<close>; each constructor below stands for one
  format string of the source, with the values that are formatted into it.
\<close>

datatype error =
    NoKeys                          \<comment> \<open>"at least one encryption key is required"\<close>
  | NoDefaultKeyID                  \<comment> \<open>"default key ID is required"\<close>
  | DefaultKeyNotFound string       \<comment> \<open>"default key ID '%s' not found in keys"\<close>
  | KeyInitFailed string error      \<comment> \<open>"failed to initialize key '%s': %w"\<close>
  | KeyLength nat                   \<comment> \<open>"key must be 32 bytes for AES-256, got %d bytes"\<close>
  | CipherFailed string             \<comment> \<open>"failed to create cipher: %w"\<close>
  | GCMFailed string                \<comment> \<open>"failed to create GCM: %w"\<close>
  | InvalidFormat                   \<comment> \<open>"invalid encrypted data format"\<close>
  | EncryptKeyNotFound string       \<comment> \<open>"encryption key '%s' not found"\<close>
  | DecryptKeyNotFound string "string list"
                                    \<comment> \<open>"encryption key '%s' not found. Available: %v"\<close>
  | NonceGenFailed                  \<comment> \<open>"failed to generate nonce: %w"\<close>
  | NonceDecodeFailed               \<comment> \<open>"failed to decode nonce: %w"\<close>
  | CiphertextDecodeFailed          \<comment> \<open>"failed to decode ciphertext: %w"\<close>
  | DecryptFailed string            \<comment> \<open>"failed to decrypt: %w"\<close>
  | EncryptFieldFailed string error \<comment> \<open>"failed to encrypt field %s: %w"\<close>
  | DecryptFieldFailed string error \<comment> \<open>"failed to decrypt field %s: %w"\<close>

section \<open>Extracting the key ID of a token\<close>

text \<open>
  \<^verbatim>\<open>GetKeyIDFromEncryptedData\<close>; the three copies in the repository
  (\<^verbatim>\<open>GovaultDB\<close>, \<^verbatim>\<open>Encryptor\<close>, \<^verbatim>\<open>DB\<close>) have the same body.
\<close>

definition GetKeyIDFromEncryptedData :: "string \<Rightarrow> error + string" where
  "GetKeyIDFromEncryptedData encryptedData =
     (if encryptedData = [] then Inr []
      else (let parts = SplitN encryptedData 2
            in if length parts < 1 then Inl InvalidFormat
               else Inr (parts ! 0)))"

section \<open>Properties of splitting\<close>

lemma cut_None_iff: "cut s = None \<longleftrightarrow> sep \<notin> set s"
  by (induction s) (auto split: option.splits)

lemma cut_Some_takeWhile:
  "cut s = Some (b, a) \<Longrightarrow> takeWhile (\<lambda>c. c \<noteq> sep) s = b \<and> b @ sep # a = s"
proof (induction s arbitrary: b a)
  case Nil
  then show ?case by simp
next
  case (Cons c cs)
  show ?case
  proof (cases "c = sep")
    case True
    with Cons.prems show ?thesis by simp
  next
    case False
    with Cons.prems obtain b' where c: "cut cs = Some (b', a)" and b: "b = c # b'"
      by (auto split: option.splits)
    from Cons.IH [OF c] b False show ?thesis by simp
  qed
qed

lemma takeWhile_no_sep: "sep \<notin> set s \<Longrightarrow> takeWhile (\<lambda>c. c \<noteq> sep) s = s"
  by (induction s) auto

lemma cut_append_sep: "sep \<notin> set b \<Longrightarrow> cut (b @ sep # a) = Some (b, a)"
  by (induction b) auto

lemma SplitN_2_hd: "SplitN s 2 \<noteq> [] \<and> SplitN s 2 ! 0 = takeWhile (\<lambda>c. c \<noteq> sep) s"
proof (cases "cut s")
  case None
  then have "sep \<notin> set s" by (simp add: cut_None_iff)
  then have t: "takeWhile (\<lambda>c. c \<noteq> sep) s = s"
    by (rule takeWhile_no_sep)
  have "SplitN s 2 = [s]" using None by (simp add: numeral_2_eq_2)
  then show ?thesis by (simp only: t) simp
next
  case (Some p)
  obtain b a where p: "p = (b, a)" by (cases p)
  with Some cut_Some_takeWhile [of s b a] show ?thesis
    by (simp add: numeral_2_eq_2)
qed

text \<open>
  Claim C10. \<^verbatim>\<open>GetKeyIDFromEncryptedData\<close> never returns an error: for every input it
  returns the part of the input before the first \<open>|\<close>, which is the empty string for the
  empty input and the whole input when there is no \<open>|\<close>; the split it relies on always has
  at least one part, so the error branch is never taken.
\<close>

theorem GetKeyIDFromEncryptedData_total:
  "GetKeyIDFromEncryptedData s = Inr (takeWhile (\<lambda>c. c \<noteq> sep) s)
   \<and> 1 \<le> length (SplitN s 2)
   \<and> GetKeyIDFromEncryptedData [] = Inr []
   \<and> GetKeyIDFromEncryptedData (b @ sep # a) = Inr (takeWhile (\<lambda>c. c \<noteq> sep) b)
   \<and> GetKeyIDFromEncryptedData (filter (\<lambda>c. c \<noteq> sep) s) = Inr (filter (\<lambda>c. c \<noteq> sep) s)"
proof -
  have 1: "GetKeyIDFromEncryptedData t = Inr (takeWhile (\<lambda>c. c \<noteq> sep) t)" for t
    using SplitN_2_hd [of t] by (simp add: GetKeyIDFromEncryptedData_def Let_def)
  have 2: "1 \<le> length (SplitN s 2)"
    using SplitN_2_hd [of s] by (cases "SplitN s 2") auto
  have 3: "takeWhile (\<lambda>c. c \<noteq> sep) (b @ sep # a) = takeWhile (\<lambda>c. c \<noteq> sep) b"
    by (induction b) auto
  have 4: "takeWhile (\<lambda>c. c \<noteq> sep) (filter (\<lambda>c. c \<noteq> sep) s) = filter (\<lambda>c. c \<noteq> sep) s"
    by (rule takeWhile_no_sep) simp
  show ?thesis using 1 2 3 4 by simp
qed

end
